theory Spec2Isabelle
  imports Complex_Main
begin

section \<open>Values, exceptions and dictionaries of the Python program\<close>

text \<open>
  The dictionaries handled by \<^verbatim>\<open>SQLGenPostProcessor\<close> are \<^verbatim>\<open>Dict[str, Any]\<close>: the value
  decoded by \<^verbatim>\<open>orjson.loads\<close>, the engine's \<^verbatim>\<open>addition\<close> mapping and the two result
  mappings. Their values are dynamically typed, so they are modelled by the JSON-shaped
  datatype \<open>pyval\<close>. A dictionary is an association list in insertion order, read with
  \<open>map_of\<close>.
\<close>

datatype pyval =
    PNone
  | PBool bool
  | PInt int
  | PFloat real
  | PStr string
  | PList "pyval list"
  | PDict "(string \<times> pyval) list"

type_synonym pydict = "(string \<times> pyval) list"

text \<open>
  What Python can raise. The first six are derived from the class \<^verbatim>\<open>Exception\<close>;
  \<open>Fault\<close> stands for any such error of a collaborator. The last three derive from
  \<^verbatim>\<open>BaseException\<close> only: \<^verbatim>\<open>asyncio.CancelledError\<close> is delivered at an \<^verbatim>\<open>await\<close> when the
  task is cancelled, the two others by an interrupt or an exit request.
\<close>

datatype exn =
    IndexError
  | KeyError string
  | TypeError
  | AttributeError
  | JSONDecodeError
  | Fault string
  | CancelledError
  | KeyboardInterrupt
  | SystemExit

text \<open>\<^verbatim>\<open>isinstance(e, Exception)\<close>: what a handler \<^verbatim>\<open>except Exception\<close> catches.\<close>

fun is_Exception :: "exn \<Rightarrow> bool" where
  "is_Exception CancelledError = False"
| "is_Exception KeyboardInterrupt = False"
| "is_Exception SystemExit = False"
| "is_Exception _ = True"

text \<open>\<^verbatim>\<open>d.get(key, default)\<close>\<close>

definition dict_get :: "pydict \<Rightarrow> string \<Rightarrow> pyval \<Rightarrow> pyval" where
  "dict_get d k dflt = (case map_of d k of None \<Rightarrow> dflt | Some v \<Rightarrow> v)"

text \<open>\<^verbatim>\<open>v[key]\<close> with a string key: only a dictionary accepts it, and a missing key raises.\<close>

fun subscript :: "pyval \<Rightarrow> string \<Rightarrow> exn + pyval" where
  "subscript (PDict d) k = (case map_of d k of None \<Rightarrow> Inl (KeyError k) | Some v \<Rightarrow> Inr v)"
| "subscript _ k = Inl TypeError"

text \<open>\<^verbatim>\<open>s.startswith(p)\<close> on two strings.\<close>

definition startswith :: "string \<Rightarrow> string \<Rightarrow> bool" where
  "startswith s p = (take (length p) s = p)"

text \<open>
  \<^verbatim>\<open>v.startswith(p)\<close> on a dynamically typed value: a value that is not a string has no
  such attribute.
\<close>

fun py_startswith :: "pyval \<Rightarrow> string \<Rightarrow> exn + bool" where
  "py_startswith (PStr s) p = Inr (startswith s p)"
| "py_startswith _ p = Inl AttributeError"

section \<open>Collaborators\<close>

text \<open>
  \<^verbatim>\<open>clean_generation_result\<close>, \<^verbatim>\<open>add_quotes\<close> and the \<^verbatim>\<open>Engine\<close> are imported from
  \<^verbatim>\<open>src.core.engine\<close>, and \<^verbatim>\<open>orjson.loads\<close> from a library; none of them is part of the
  sources at hand. They are parameters of the model, each of them free to raise.
  \<^verbatim>\<open>add_quotes\<close> returns the pair \<^verbatim>\<open>(quoted_sql, error_message)\<close> of strings.
\<close>

record externals =
  clean_generation_result :: "pyval \<Rightarrow> exn + string"
  orjson_loads :: "string \<Rightarrow> exn + pyval"
  add_quotes :: "pyval \<Rightarrow> exn + (string \<times> string)"

text \<open>
  The engine's two operations, as functions of the arguments the classifier passes (the
  HTTP session is left out). \<open>dry_plan\<close> takes the SQL, the data source, the timeout and
  \<^verbatim>\<open>allow_fallback\<close> and returns \<^verbatim>\<open>(ok, error_message)\<close>; \<open>execute_sql\<close> takes the SQL, the
  project id, the timeout, the row limit and \<^verbatim>\<open>dry_run\<close> and returns
  \<^verbatim>\<open>(ok, rows, addition)\<close>.
\<close>

record engine =
  dry_plan :: "string \<Rightarrow> string \<Rightarrow> real \<Rightarrow> bool \<Rightarrow> exn + (bool \<times> string)"
  execute_sql ::
    "string \<Rightarrow> string option \<Rightarrow> real \<Rightarrow> nat \<Rightarrow> bool \<Rightarrow> exn + (bool \<times> pyval \<times> pydict)"

text \<open>The engine operations invoked during a call, in order, with their arguments.\<close>

datatype call =
    DryPlan string string real bool
  | ExecuteSql string "string option" real nat bool

text \<open>The keyword arguments of \<^verbatim>\<open>run\<close>.\<close>

record run_args =
  timeout :: real
  project_id :: "string option"
  use_dry_plan :: bool
  allow_dry_plan_fallback :: bool
  data_source :: string
  allow_data_preview :: bool

text \<open>The dictionary returned by \<^verbatim>\<open>run\<close>, with its two fixed keys.\<close>

record run_output =
  valid_generation_result :: pydict
  invalid_generation_result :: pydict

section \<open>\<^verbatim>\<open>SQLGenPostProcessor._classify_generation_result\<close>\<close>

text \<open>
  The result is the list of engine calls made, and either the exception that ended the
  call or the pair \<^verbatim>\<open>(valid_generation_result, invalid_generation_result)\<close>.
\<close>

definition classify_generation_result ::
  "externals \<Rightarrow> engine \<Rightarrow> pyval \<Rightarrow> run_args \<Rightarrow> call list \<times> (exn + (pydict \<times> pydict))"
where
  "classify_generation_result ext eng generation_result a =
    (case add_quotes ext generation_result of
       Inl e \<Rightarrow> ([], Inl e)
     | Inr (quoted_sql, error_message) \<Rightarrow>
        let use_dry_run = \<not> allow_data_preview a in
        if error_message = [] then
          if use_dry_plan a then
            (let c = DryPlan quoted_sql (data_source a) (timeout a) (allow_dry_plan_fallback a) in
             case dry_plan eng quoted_sql (data_source a) (timeout a) (allow_dry_plan_fallback a) of
               Inl e \<Rightarrow> ([c], Inl e)
             | Inr (dry_plan_result, error_message) \<Rightarrow>
                 if dry_plan_result then
                   ([c], Inr ([(''sql'', PStr quoted_sql), (''correlation_id'', PStr '''')], []))
                 else
                   ([c], Inr ([],
                      [(''sql'', PStr quoted_sql),
                       (''type'', PStr (if startswith error_message ''Request timed out''
                                        then ''TIME_OUT'' else ''DRY_PLAN'')),
                       (''error'', PStr error_message),
                       (''correlation_id'', PStr '''')])))
          else if use_dry_run then
            (let c = ExecuteSql quoted_sql (project_id a) (timeout a) 1 True in
             case execute_sql eng quoted_sql (project_id a) (timeout a) 1 True of
               Inl e \<Rightarrow> ([c], Inl e)
             | Inr (status, _, addition) \<Rightarrow>
                 if status then
                   ([c], Inr ([(''sql'', PStr quoted_sql),
                               (''correlation_id'', dict_get addition ''correlation_id'' (PStr ''''))],
                              []))
                 else
                   (let error_message = dict_get addition ''error_message'' (PStr '''') in
                    case py_startswith error_message ''Request timed out'' of
                      Inl e \<Rightarrow> ([c], Inl e)
                    | Inr timed_out \<Rightarrow>
                        ([c], Inr ([],
                           [(''sql'', PStr quoted_sql),
                            (''type'', PStr (if timed_out then ''TIME_OUT'' else ''DRY_RUN'')),
                            (''error'', error_message),
                            (''correlation_id'', dict_get addition ''correlation_id'' (PStr ''''))]))))
          else
            (let c = ExecuteSql quoted_sql (project_id a) (timeout a) 1 False in
             case execute_sql eng quoted_sql (project_id a) (timeout a) 1 False of
               Inl e \<Rightarrow> ([c], Inl e)
             | Inr (status, _, addition) \<Rightarrow>
                 if status then
                   ([c], Inr ([(''sql'', PStr quoted_sql),
                               (''correlation_id'', dict_get addition ''correlation_id'' (PStr ''''))],
                              []))
                 else
                   (let error_message = dict_get addition ''error_message'' (PStr '''');
                        preview_data_status =
                          (if error_message = PStr '''' then ''PREVIEW_EMPTY_DATA''
                           else ''PREVIEW_FAILED'') in
                    case py_startswith error_message ''Request timed out'' of
                      Inl e \<Rightarrow> ([c], Inl e)
                    | Inr timed_out \<Rightarrow>
                        ([c], Inr ([],
                           [(''sql'', PStr quoted_sql),
                            (''type'', PStr (if timed_out then ''TIME_OUT'' else preview_data_status)),
                            (''error'', error_message),
                            (''correlation_id'', dict_get addition ''correlation_id'' (PStr ''''))]))))
        else
          ([], Inr ([],
             [(''sql'', generation_result),
              (''type'', PStr ''ADD_QUOTES''),
              (''error'', PStr error_message)])))"

section \<open>\<^verbatim>\<open>SQLGenPostProcessor.run\<close>\<close>

text \<open>
  The first statements of the \<^verbatim>\<open>try\<close> block, which compute the variable
  \<^verbatim>\<open>cleaned_generation_result\<close>: \<^verbatim>\<open>replies[0]\<close> raises on an empty list, the first reply
  is cleaned, and a cleaned text that starts with an opening brace is decoded and replaced
  by the value under its key \<^verbatim>\<open>sql\<close>.
\<close>

definition cleaned_generation_result :: "externals \<Rightarrow> pyval list \<Rightarrow> exn + pyval" where
  "cleaned_generation_result ext replies =
    (case replies of
       [] \<Rightarrow> Inl IndexError
     | r # _ \<Rightarrow>
        (case clean_generation_result ext r of
           Inl e \<Rightarrow> Inl e
         | Inr cleaned \<Rightarrow>
            if startswith cleaned ''{''
            then (case orjson_loads ext cleaned of
                    Inl e \<Rightarrow> Inl e
                  | Inr v \<Rightarrow> subscript v ''sql'')
            else Inr (PStr cleaned)))"

text \<open>The whole \<^verbatim>\<open>try\<close> block: the candidate is classified and the two mappings returned.\<close>

definition run_try :: "externals \<Rightarrow> engine \<Rightarrow> pyval list \<Rightarrow> run_args \<Rightarrow> call list \<times> (exn + run_output)"
where
  "run_try ext eng replies a =
    (case cleaned_generation_result ext replies of
       Inl e \<Rightarrow> ([], Inl e)
     | Inr candidate \<Rightarrow>
        (case classify_generation_result ext eng candidate a of
           (calls, Inl e) \<Rightarrow> (calls, Inl e)
         | (calls, Inr (valid, invalid)) \<Rightarrow>
             (calls, Inr \<lparr>valid_generation_result = valid,
                          invalid_generation_result = invalid\<rparr>)))"

text \<open>
  \<^verbatim>\<open>run\<close> itself: the handler \<^verbatim>\<open>except Exception\<close> turns an exception of the block that is
  derived from \<^verbatim>\<open>Exception\<close> into the result with two empty mappings (the log record it
  writes is not modelled). Any other exception is not caught and leaves \<^verbatim>\<open>run\<close>.
\<close>

definition run ::
  "externals \<Rightarrow> engine \<Rightarrow> pyval list \<Rightarrow> run_args \<Rightarrow> call list \<times> (exn + run_output)" where
  "run ext eng replies a =
    (case run_try ext eng replies a of
       (calls, Inl e) \<Rightarrow>
         if is_Exception e
         then (calls, Inr \<lparr>valid_generation_result = [], invalid_generation_result = []\<rparr>)
         else (calls, Inl e)
     | (calls, Inr out) \<Rightarrow> (calls, Inr out))"

section \<open>\<^verbatim>\<open>InstructionsService.__getitem__\<close>\<close>

datatype event_status = Indexing | Deleting | Finished | Failed

datatype request_origin = UI | API

datatype error_code = OTHERS

record Error =
  code :: error_code
  message :: string

record Event =
  event_id :: string
  status :: event_status
  error :: "Error option"
  trace_id :: "string option"
  request_from :: request_origin

text \<open>
  The service's \<^verbatim>\<open>_cache\<close> is a \<^verbatim>\<open>TTLCache\<close>: every stored event has the time at which it
  expires. Its \<^verbatim>\<open>get\<close> returns \<^verbatim>\<open>None\<close> for a key that was never stored and for one whose
  entry has expired at the current time, and changes nothing.
\<close>

record InstructionsService =
  cache :: "string \<rightharpoonup> real \<times> Event"

definition cache_get :: "(string \<rightharpoonup> real \<times> Event) \<Rightarrow> real \<Rightarrow> string \<Rightarrow> Event option" where
  "cache_get c now k =
    (case c k of
       None \<Rightarrow> None
     | Some (expires, v) \<Rightarrow> if now < expires then Some v else None)"

text \<open>The message \<^verbatim>\<open>f"Instructions Event with ID '{event_id}' not found."\<close>\<close>

definition not_found_message :: "string \<Rightarrow> string" where
  "not_found_message eid =
     ''Instructions Event with ID '' @ [CHR 0x27] @ eid @ [CHR 0x27] @ '' not found.''"

text \<open>
  \<^verbatim>\<open>__getitem__\<close> at the time \<open>now\<close>: the event returned, and the service after the call.
\<close>

definition getitem :: "InstructionsService \<Rightarrow> real \<Rightarrow> string \<Rightarrow> Event \<times> InstructionsService" where
  "getitem self now eid =
    (case cache_get (cache self) now eid of
       None \<Rightarrow>
         (\<lparr>event_id = eid, status = Failed,
           error = Some \<lparr>code = OTHERS, message = not_found_message eid\<rparr>,
           trace_id = None, request_from = UI\<rparr>, self)
     | Some response \<Rightarrow> (response, self))"

section \<open>Stub collaborators\<close>

text \<open>
  A deterministic stub engine answers every plan validation with \<open>plan\<close> and every
  execution with \<open>exec\<close>.
\<close>

definition stub_engine ::
  "exn + (bool \<times> string) \<Rightarrow> exn + (bool \<times> pyval \<times> pydict) \<Rightarrow> engine" where
  "stub_engine plan exec =
     \<lparr>dry_plan = (\<lambda>sql ds t fb. plan), execute_sql = (\<lambda>sql pid t lim dr. exec)\<rparr>"

text \<open>
  Stub transforms: cleaning returns a string reply as it is, decoding knows two
  envelopes, and quoting knows two queries and reports an error on any other string.
\<close>

definition stub_externals :: externals where
  \<open>stub_externals =
     \<lparr>clean_generation_result = (\<lambda>r. case r of PStr s \<Rightarrow> Inr s | _ \<Rightarrow> Inl TypeError),
      orjson_loads = (\<lambda>s.
        if s = ''{"sql": "SELECT 1"}'' then Inr (PDict [(''sql'', PStr ''SELECT 1'')])
        else if s = ''{"query": "SELECT 1"}'' then Inr (PDict [(''query'', PStr ''SELECT 1'')])
        else Inl JSONDecodeError),
      add_quotes = (\<lambda>v. case v of
          PStr s \<Rightarrow>
            if s = ''SELECT * FROM orders'' then Inr (''SELECT * FROM "orders"'', '''')
            else if s = ''SELECT 1'' then Inr (''SELECT 1'', '''')
            else Inr ('''', ''unterminated string literal'')
        | _ \<Rightarrow> Inl TypeError)\<rparr>\<close>

definition stub_args :: "bool \<Rightarrow> bool \<Rightarrow> run_args" where
  "stub_args plan preview =
     \<lparr>timeout = 30, project_id = None, use_dry_plan = plan, allow_dry_plan_fallback = True,
      data_source = '''', allow_data_preview = preview\<rparr>"

section \<open>The branches of the classifier\<close>

lemma classify_add_quotes_raises:
  "add_quotes ext c = Inl e \<Longrightarrow> classify_generation_result ext eng c a = ([], Inl e)"
  by (simp add: classify_generation_result_def)

lemma classify_add_quotes_error:
  "add_quotes ext c = Inr (q, err) \<Longrightarrow> err \<noteq> [] \<Longrightarrow>
   classify_generation_result ext eng c a =
     ([], Inr ([], [(''sql'', c), (''type'', PStr ''ADD_QUOTES''), (''error'', PStr err)]))"
  by (simp add: classify_generation_result_def)

lemma classify_dry_plan:
  "add_quotes ext c = Inr (q, []) \<Longrightarrow> use_dry_plan a \<Longrightarrow>
   classify_generation_result ext eng c a =
     ([DryPlan q (data_source a) (timeout a) (allow_dry_plan_fallback a)],
      (case dry_plan eng q (data_source a) (timeout a) (allow_dry_plan_fallback a) of
         Inl e \<Rightarrow> Inl e
       | Inr (ok, msg) \<Rightarrow>
           if ok then Inr ([(''sql'', PStr q), (''correlation_id'', PStr '''')], [])
           else Inr ([], [(''sql'', PStr q),
                          (''type'', PStr (if startswith msg ''Request timed out''
                                           then ''TIME_OUT'' else ''DRY_PLAN'')),
                          (''error'', PStr msg),
                          (''correlation_id'', PStr '''')])))"
  by (simp add: classify_generation_result_def split: sum.splits prod.splits)

lemma classify_dry_run:
  "add_quotes ext c = Inr (q, []) \<Longrightarrow> \<not> use_dry_plan a \<Longrightarrow> \<not> allow_data_preview a \<Longrightarrow>
   classify_generation_result ext eng c a =
     ([ExecuteSql q (project_id a) (timeout a) 1 True],
      (case execute_sql eng q (project_id a) (timeout a) 1 True of
         Inl e \<Rightarrow> Inl e
       | Inr (ok, rows, addition) \<Rightarrow>
           if ok then Inr ([(''sql'', PStr q),
                            (''correlation_id'', dict_get addition ''correlation_id'' (PStr ''''))], [])
           else (case py_startswith (dict_get addition ''error_message'' (PStr '''')) ''Request timed out'' of
                   Inl e \<Rightarrow> Inl e
                 | Inr timed_out \<Rightarrow>
                     Inr ([], [(''sql'', PStr q),
                               (''type'', PStr (if timed_out then ''TIME_OUT'' else ''DRY_RUN'')),
                               (''error'', dict_get addition ''error_message'' (PStr '''')),
                               (''correlation_id'', dict_get addition ''correlation_id'' (PStr ''''))]))))"
  by (simp add: classify_generation_result_def Let_def split: sum.splits prod.splits)

lemma classify_live_preview:
  "add_quotes ext c = Inr (q, []) \<Longrightarrow> \<not> use_dry_plan a \<Longrightarrow> allow_data_preview a \<Longrightarrow>
   classify_generation_result ext eng c a =
     ([ExecuteSql q (project_id a) (timeout a) 1 False],
      (case execute_sql eng q (project_id a) (timeout a) 1 False of
         Inl e \<Rightarrow> Inl e
       | Inr (ok, rows, addition) \<Rightarrow>
           if ok then Inr ([(''sql'', PStr q),
                            (''correlation_id'', dict_get addition ''correlation_id'' (PStr ''''))], [])
           else (case py_startswith (dict_get addition ''error_message'' (PStr '''')) ''Request timed out'' of
                   Inl e \<Rightarrow> Inl e
                 | Inr timed_out \<Rightarrow>
                     Inr ([], [(''sql'', PStr q),
                               (''type'', PStr (if timed_out then ''TIME_OUT''
                                  else if dict_get addition ''error_message'' (PStr '''') = PStr ''''
                                  then ''PREVIEW_EMPTY_DATA'' else ''PREVIEW_FAILED'')),
                               (''error'', dict_get addition ''error_message'' (PStr '''')),
                               (''correlation_id'', dict_get addition ''correlation_id'' (PStr ''''))]))))"
  by (simp add: classify_generation_result_def Let_def split: sum.splits prod.splits)

lemma cleaned_generation_result_empty:
  "cleaned_generation_result ext [] = Inl IndexError"
  by (simp add: cleaned_generation_result_def)

lemma run_try_malformed_json:
  "clean_generation_result ext r = Inr cleaned \<Longrightarrow> startswith cleaned ''{'' \<Longrightarrow>
   orjson_loads ext cleaned = Inl e \<Longrightarrow> run_try ext eng (r # rs) a = ([], Inl e)"
  by (simp add: run_try_def cleaned_generation_result_def)

lemma run_try_missing_sql_key:
  "clean_generation_result ext r = Inr cleaned \<Longrightarrow> startswith cleaned ''{'' \<Longrightarrow>
   orjson_loads ext cleaned = Inr (PDict d) \<Longrightarrow> map_of d ''sql'' = None \<Longrightarrow>
   run_try ext eng (r # rs) a = ([], Inl (KeyError ''sql''))"
  by (simp add: run_try_def cleaned_generation_result_def)

lemma run_try_dry_plan_fault:
  "cleaned_generation_result ext replies = Inr c \<Longrightarrow> add_quotes ext c = Inr (q, []) \<Longrightarrow>
   use_dry_plan a \<Longrightarrow>
   dry_plan eng q (data_source a) (timeout a) (allow_dry_plan_fallback a) = Inl e \<Longrightarrow>
   snd (run_try ext eng replies a) = Inl e"
  by (simp add: run_try_def classify_dry_plan)

lemma run_try_execute_sql_fault:
  "cleaned_generation_result ext replies = Inr c \<Longrightarrow> add_quotes ext c = Inr (q, []) \<Longrightarrow>
   \<not> use_dry_plan a \<Longrightarrow>
   execute_sql eng q (project_id a) (timeout a) 1 (\<not> allow_data_preview a) = Inl e \<Longrightarrow>
   snd (run_try ext eng replies a) = Inl e"
  by (cases "allow_data_preview a") (simp_all add: run_try_def classify_dry_run classify_live_preview)

lemma classify_exactly_one:
  assumes "classify_generation_result ext eng c a = (calls, res)"
    and "res = Inr p" and "p = (valid, invalid)"
  shows "(valid = []) \<noteq> (invalid = [])"
  using assms
  by (auto simp: classify_generation_result_def Let_def
      split: sum.splits prod.splits if_splits)

section \<open>Properties\<close>

text \<open>
  C1. When quoting reports an error, the classifier returns an invalid result of type
  \<^verbatim>\<open>ADD_QUOTES\<close> with the unquoted candidate and the quoting error, and calls no engine
  operation (\<open>classify_add_quotes_error\<close> above). The mapping has no key
  \<^verbatim>\<open>correlation_id\<close>, however, unlike the mapping of every other branch: at a candidate
  that the quoting transform rejects, reading that key of the result raises \<^verbatim>\<open>KeyError\<close>.
\<close>

theorem add_quotes_error_result_lacks_correlation_id:
  "classify_generation_result stub_externals (stub_engine (Inr (True, [])) (Inr (True, PNone, [])))
     (PStr ''SELECT (1'') (stub_args False False) =
     ([], Inr ([], [(''sql'', PStr ''SELECT (1''), (''type'', PStr ''ADD_QUOTES''),
                    (''error'', PStr ''unterminated string literal'')]))
   \<and> subscript (PDict [(''sql'', PStr ''SELECT (1''), (''type'', PStr ''ADD_QUOTES''),
                    (''error'', PStr ''unterminated string literal'')]) ''correlation_id''
       = Inl (KeyError ''correlation_id'')"
  by (simp add: classify_generation_result_def stub_externals_def stub_engine_def stub_args_def)

text \<open>
  C2, as the code has it. Whenever the \<^verbatim>\<open>try\<close> block of \<^verbatim>\<open>run\<close> raises an exception
  derived from \<^verbatim>\<open>Exception\<close> (malformed JSON, a missing key \<^verbatim>\<open>sql\<close>, an engine fault of that
  kind: see the lemmas above), \<^verbatim>\<open>run\<close> returns the result whose two mappings are empty, after
  the same engine calls. An exception that is not derived from \<^verbatim>\<open>Exception\<close> is not caught:
  it leaves \<^verbatim>\<open>run\<close> and reaches the caller.
\<close>

theorem run_catches_exactly_the_Exceptions:
  assumes "snd (run_try ext eng replies a) = Inl e"
  shows "run ext eng replies a =
           (fst (run_try ext eng replies a),
            if is_Exception e
            then Inr \<lparr>valid_generation_result = [], invalid_generation_result = []\<rparr>
            else Inl e)"
  using assms by (cases "run_try ext eng replies a") (simp add: run_def)

theorem run_catches_exactly_the_Exceptions_witness:
  \<open>snd (run_try stub_externals (stub_engine (Inr (True, [])) (Inr (True, PNone, [])))
          [PStr ''{"sql": ''] (stub_args False False)) = Inl JSONDecodeError
   \<and> run stub_externals (stub_engine (Inr (True, [])) (Inr (True, PNone, [])))
          [PStr ''{"sql": ''] (stub_args False False) =
       ([], Inr \<lparr>valid_generation_result = [], invalid_generation_result = []\<rparr>)
   \<and> snd (run_try stub_externals (stub_engine (Inr (True, [])) (Inr (True, PNone, [])))
          [PStr ''{"query": "SELECT 1"}''] (stub_args False False)) = Inl (KeyError ''sql'')
   \<and> run stub_externals (stub_engine (Inr (True, [])) (Inr (True, PNone, [])))
          [PStr ''{"query": "SELECT 1"}''] (stub_args False False) =
       ([], Inr \<lparr>valid_generation_result = [], invalid_generation_result = []\<rparr>)
   \<and> snd (run_try stub_externals (stub_engine (Inr (True, [])) (Inl (Fault ''connection reset'')))
          [PStr ''SELECT 1''] (stub_args False True)) = Inl (Fault ''connection reset'')
   \<and> run stub_externals (stub_engine (Inr (True, [])) (Inl (Fault ''connection reset'')))
          [PStr ''SELECT 1''] (stub_args False True) =
       ([ExecuteSql ''SELECT 1'' None 30 1 False],
        Inr \<lparr>valid_generation_result = [], invalid_generation_result = []\<rparr>)
   \<and> snd (run_try stub_externals (stub_engine (Inr (True, [])) (Inl KeyboardInterrupt))
          [PStr ''SELECT 1''] (stub_args False False)) = Inl KeyboardInterrupt
   \<and> run stub_externals (stub_engine (Inr (True, [])) (Inl KeyboardInterrupt))
          [PStr ''SELECT 1''] (stub_args False False) =
       ([ExecuteSql ''SELECT 1'' None 30 1 True], Inl KeyboardInterrupt)\<close>
proof -
  let ?ok = "stub_engine (Inr (True, [])) (Inr (True, PNone, []))"
  let ?bad = "stub_engine (Inr (True, [])) (Inl (Fault ''connection reset''))"
  let ?int = "stub_engine (Inr (True, [])) (Inl KeyboardInterrupt)"
  have j: \<open>run_try stub_externals ?ok [PStr ''{"sql": ''] (stub_args False False)
             = ([], Inl JSONDecodeError)\<close>
    by (simp add: run_try_def cleaned_generation_result_def stub_externals_def startswith_def)
  have k: \<open>run_try stub_externals ?ok [PStr ''{"query": "SELECT 1"}''] (stub_args False False)
             = ([], Inl (KeyError ''sql''))\<close>
    by (simp add: run_try_def cleaned_generation_result_def stub_externals_def startswith_def)
  have f: \<open>run_try stub_externals ?bad [PStr ''SELECT 1''] (stub_args False True)
             = ([ExecuteSql ''SELECT 1'' None 30 1 False], Inl (Fault ''connection reset''))\<close>
    by (simp add: run_try_def cleaned_generation_result_def classify_generation_result_def
        stub_externals_def stub_engine_def stub_args_def startswith_def)
  have i: \<open>run_try stub_externals ?int [PStr ''SELECT 1''] (stub_args False False)
             = ([ExecuteSql ''SELECT 1'' None 30 1 True], Inl KeyboardInterrupt)\<close>
    by (simp add: run_try_def cleaned_generation_result_def classify_generation_result_def
        stub_externals_def stub_engine_def stub_args_def startswith_def)
  have j': \<open>snd (run_try stub_externals ?ok [PStr ''{"sql": ''] (stub_args False False))
             = Inl JSONDecodeError\<close>
    by (simp add: j)
  have k': \<open>snd (run_try stub_externals ?ok [PStr ''{"query": "SELECT 1"}''] (stub_args False False))
             = Inl (KeyError ''sql'')\<close>
    by (simp add: k)
  have f': \<open>snd (run_try stub_externals ?bad [PStr ''SELECT 1''] (stub_args False True))
             = Inl (Fault ''connection reset'')\<close>
    by (simp add: f)
  have i': \<open>snd (run_try stub_externals ?int [PStr ''SELECT 1''] (stub_args False False))
             = Inl KeyboardInterrupt\<close>
    by (simp add: i)
  show ?thesis
    using run_catches_exactly_the_Exceptions [OF j'] run_catches_exactly_the_Exceptions [OF k']
      run_catches_exactly_the_Exceptions [OF f'] run_catches_exactly_the_Exceptions [OF i']
    by (simp add: j k f i)
qed

text \<open>
  The claim as it is worded fails: a task cancelled while it awaits the engine's
  \<open>dry_plan\<close> gets \<^verbatim>\<open>asyncio.CancelledError\<close> there, the handler does not catch it, and \<^verbatim>\<open>run\<close>
  ends with that exception and no result.
\<close>

theorem run_propagates_cancellation_counterexample:
  "run stub_externals (stub_engine (Inl CancelledError) (Inr (True, PNone, [])))
     [PStr ''SELECT 1''] (stub_args True False)
   = ([DryPlan ''SELECT 1'' [] 30 True], Inl CancelledError)"
  by (simp add: run_def run_try_def cleaned_generation_result_def classify_generation_result_def
      stub_externals_def stub_engine_def stub_args_def startswith_def)

text \<open>
  C3. When the \<^verbatim>\<open>try\<close> block completes without an exception, \<^verbatim>\<open>run\<close> returns its result
  and exactly one of the two mappings is empty; when it raises an exception that the
  handler catches, both mappings are empty, and otherwise \<^verbatim>\<open>run\<close> returns no mappings at
  all. So both are empty only on the failure path.
\<close>

theorem exactly_one_result_nonempty:
  "(case snd (run_try ext eng replies a) of
      Inr out \<Rightarrow>
        snd (run ext eng replies a) = Inr out
        \<and> (valid_generation_result out = []) \<noteq> (invalid_generation_result out = [])
    | Inl e \<Rightarrow>
        snd (run ext eng replies a) =
          (if is_Exception e
           then Inr \<lparr>valid_generation_result = [], invalid_generation_result = []\<rparr>
           else Inl e))"
proof (cases "cleaned_generation_result ext replies")
  case (Inl e)
  then show ?thesis by (simp add: run_def run_try_def)
next
  case (Inr c)
  obtain calls res where cr: "classify_generation_result ext eng c a = (calls, res)"
    by (cases "classify_generation_result ext eng c a")
  show ?thesis
  proof (cases res)
    case (Inl e)
    with Inr cr show ?thesis by (simp add: run_def run_try_def)
  next
    case res: (Inr p)
    obtain valid invalid where p: "p = (valid, invalid)" by (cases p)
    from cr res p have "(valid = []) \<noteq> (invalid = [])"
      by (rule classify_exactly_one)
    with Inr cr res p show ?thesis by (simp add: run_def run_try_def)
  qed
qed

theorem exactly_one_result_nonempty_witness:
  \<open>snd (run stub_externals (stub_engine (Inr (True, [])) (Inr (True, PNone, [(''correlation_id'', PStr ''abc'')])))
          [PStr ''SELECT * FROM orders''] (stub_args False False)) =
     Inr \<lparr>valid_generation_result =
         [(''sql'', PStr ''SELECT * FROM "orders"''), (''correlation_id'', PStr ''abc'')],
       invalid_generation_result = []\<rparr>\<close>
proof -
  let ?eng = "stub_engine (Inr (True, [])) (Inr (True, PNone, [(''correlation_id'', PStr ''abc'')]))"
  have t: \<open>snd (run_try stub_externals ?eng [PStr ''SELECT * FROM orders''] (stub_args False False)) =
     Inr \<lparr>valid_generation_result =
         [(''sql'', PStr ''SELECT * FROM "orders"''), (''correlation_id'', PStr ''abc'')],
       invalid_generation_result = []\<rparr>\<close>
    by (simp add: run_try_def cleaned_generation_result_def classify_generation_result_def
        stub_externals_def stub_engine_def stub_args_def startswith_def dict_get_def)
  show ?thesis
    using exactly_one_result_nonempty [of stub_externals ?eng "[PStr ''SELECT * FROM orders'']"
        "stub_args False False"]
    by (simp add: t)
qed

text \<open>
  C4. In each of the three modes, an engine failure whose error message starts with
  \<^verbatim>\<open>Request timed out\<close> gives an invalid result of type \<^verbatim>\<open>TIME_OUT\<close> carrying that message.
  The message is the second component of the answer of \<open>dry_plan\<close>, or the entry
  \<^verbatim>\<open>error_message\<close> of the \<^verbatim>\<open>addition\<close> mapping of \<open>execute_sql\<close>.
\<close>

theorem timed_out_failure_is_TIME_OUT:
  assumes "add_quotes ext c = Inr (q, [])"
    and "if use_dry_plan a
         then dry_plan eng q (data_source a) (timeout a) (allow_dry_plan_fallback a) = Inr (False, msg)
         else (\<exists>rows addition.
                 execute_sql eng q (project_id a) (timeout a) 1 (\<not> allow_data_preview a)
                   = Inr (False, rows, addition)
                 \<and> dict_get addition ''error_message'' (PStr '''') = PStr msg)"
    and "startswith msg ''Request timed out''"
  shows "\<exists>invalid. snd (classify_generation_result ext eng c a) = Inr ([], invalid)
           \<and> map_of invalid ''type'' = Some (PStr ''TIME_OUT'')
           \<and> map_of invalid ''error'' = Some (PStr msg)"
proof (cases "use_dry_plan a")
  case True
  with assms show ?thesis by (simp add: classify_dry_plan)
next
  case plan: False
  with assms(2) obtain rows addition where
    ex: "execute_sql eng q (project_id a) (timeout a) 1 (\<not> allow_data_preview a)
           = Inr (False, rows, addition)"
    and m: "dict_get addition ''error_message'' (PStr '''') = PStr msg"
    by auto
  show ?thesis
  proof (cases "allow_data_preview a")
    case True
    with assms(1,3) plan ex m show ?thesis by (simp add: classify_live_preview)
  next
    case False
    with assms(1,3) plan ex m show ?thesis by (simp add: classify_dry_run)
  qed
qed

theorem timed_out_failure_is_TIME_OUT_witness:
  "(\<exists>invalid. snd (classify_generation_result stub_externals
        (stub_engine (Inr (False, ''Request timed out after 30s'')) (Inl (Fault ''unused'')))
        (PStr ''SELECT 1'') (stub_args True True)) = Inr ([], invalid)
      \<and> map_of invalid ''type'' = Some (PStr ''TIME_OUT'')
      \<and> map_of invalid ''error'' = Some (PStr ''Request timed out after 30s''))
   \<and> (\<exists>invalid. snd (classify_generation_result stub_externals
        (stub_engine (Inl (Fault ''unused''))
           (Inr (False, PNone, [(''error_message'', PStr ''Request timed out'')])))
        (PStr ''SELECT 1'') (stub_args False False)) = Inr ([], invalid)
      \<and> map_of invalid ''type'' = Some (PStr ''TIME_OUT'')
      \<and> map_of invalid ''error'' = Some (PStr ''Request timed out''))
   \<and> (\<exists>invalid. snd (classify_generation_result stub_externals
        (stub_engine (Inl (Fault ''unused''))
           (Inr (False, PNone, [(''error_message'', PStr ''Request timed out'')])))
        (PStr ''SELECT 1'') (stub_args False True)) = Inr ([], invalid)
      \<and> map_of invalid ''type'' = Some (PStr ''TIME_OUT'')
      \<and> map_of invalid ''error'' = Some (PStr ''Request timed out''))"
proof -
  let ?plan = "stub_engine (Inr (False, ''Request timed out after 30s'')) (Inl (Fault ''unused''))"
  let ?exec = "stub_engine (Inl (Fault ''unused''))
                 (Inr (False, PNone, [(''error_message'', PStr ''Request timed out'')]))"
  have q: "add_quotes stub_externals (PStr ''SELECT 1'') = Inr (''SELECT 1'', [])"
    by (simp add: stub_externals_def)
  have p1: "startswith ''Request timed out after 30s'' ''Request timed out''"
    by (simp add: startswith_def)
  have p2: "startswith ''Request timed out'' ''Request timed out''"
    by (simp add: startswith_def)
  have h1: "if use_dry_plan (stub_args True True)
         then dry_plan ?plan ''SELECT 1'' (data_source (stub_args True True))
                (timeout (stub_args True True)) (allow_dry_plan_fallback (stub_args True True))
              = Inr (False, ''Request timed out after 30s'')
         else (\<exists>rows addition.
                 execute_sql ?plan ''SELECT 1'' (project_id (stub_args True True))
                   (timeout (stub_args True True)) 1 (\<not> allow_data_preview (stub_args True True))
                   = Inr (False, rows, addition)
                 \<and> dict_get addition ''error_message'' (PStr '''')
                     = PStr ''Request timed out after 30s'')"
    by (simp add: stub_engine_def stub_args_def)
  have h2: "if use_dry_plan (stub_args False pv)
         then dry_plan ?exec ''SELECT 1'' (data_source (stub_args False pv))
                (timeout (stub_args False pv)) (allow_dry_plan_fallback (stub_args False pv))
              = Inr (False, ''Request timed out'')
         else (\<exists>rows addition.
                 execute_sql ?exec ''SELECT 1'' (project_id (stub_args False pv))
                   (timeout (stub_args False pv)) 1 (\<not> allow_data_preview (stub_args False pv))
                   = Inr (False, rows, addition)
                 \<and> dict_get addition ''error_message'' (PStr '''')
                     = PStr ''Request timed out'')" for pv
    by (simp add: stub_engine_def stub_args_def dict_get_def)
  show ?thesis
    using timed_out_failure_is_TIME_OUT [OF q h1 p1]
      timed_out_failure_is_TIME_OUT [OF q h2 [of False] p2]
      timed_out_failure_is_TIME_OUT [OF q h2 [of True] p2]
    by simp
qed

text \<open>
  C5. In live preview mode (\<open>use_dry_plan\<close> false, \<open>allow_data_preview\<close> true), a failed
  execution with error message \<open>msg\<close> gives an invalid result whose type is
  \<^verbatim>\<open>TIME_OUT\<close> if \<open>msg\<close> starts with \<^verbatim>\<open>Request timed out\<close>, otherwise
  \<^verbatim>\<open>PREVIEW_EMPTY_DATA\<close> if \<open>msg\<close> is empty, otherwise \<^verbatim>\<open>PREVIEW_FAILED\<close>. An
  \<^verbatim>\<open>error_message\<close> that is not a string gives no result: the call raises.
\<close>

theorem live_preview_failure_type:
  assumes "add_quotes ext c = Inr (q, [])"
    and "\<not> use_dry_plan a" and "allow_data_preview a"
    and "execute_sql eng q (project_id a) (timeout a) 1 False = Inr (False, rows, addition)"
  shows "snd (classify_generation_result ext eng c a) =
    (case dict_get addition ''error_message'' (PStr '''') of
       PStr msg \<Rightarrow>
         Inr ([], [(''sql'', PStr q),
                   (''type'', PStr (if startswith msg ''Request timed out'' then ''TIME_OUT''
                                    else if msg = [] then ''PREVIEW_EMPTY_DATA''
                                    else ''PREVIEW_FAILED'')),
                   (''error'', PStr msg),
                   (''correlation_id'', dict_get addition ''correlation_id'' (PStr ''''))])
     | _ \<Rightarrow> Inl AttributeError)"
  using assms
  by (cases "dict_get addition ''error_message'' (PStr '''')")
    (simp_all add: classify_live_preview)

theorem live_preview_failure_type_witness:
  \<open>snd (classify_generation_result stub_externals
         (stub_engine (Inl (Fault ''unused'')) (Inr (False, PNone, [(''error_message'', PStr '''')])))
         (PStr ''SELECT * FROM orders'') (stub_args False True)) =
     Inr ([], [(''sql'', PStr ''SELECT * FROM "orders"''),
               (''type'', PStr ''PREVIEW_EMPTY_DATA''),
               (''error'', PStr ''''),
               (''correlation_id'', PStr '''')])\<close>
proof -
  let ?eng = "stub_engine (Inl (Fault ''unused'')) (Inr (False, PNone, [(''error_message'', PStr '''')]))"
  have q: \<open>add_quotes stub_externals (PStr ''SELECT * FROM orders'')
             = Inr (''SELECT * FROM "orders"'', [])\<close>
    by (simp add: stub_externals_def)
  have p: "\<not> use_dry_plan (stub_args False True)" "allow_data_preview (stub_args False True)"
    by (simp_all add: stub_args_def)
  have e: \<open>execute_sql ?eng ''SELECT * FROM "orders"'' (project_id (stub_args False True))
             (timeout (stub_args False True)) 1 False
           = Inr (False, PNone, [(''error_message'', PStr '''')])\<close>
    by (simp add: stub_engine_def)
  show ?thesis
    using live_preview_failure_type [OF q p e]
    by (simp add: dict_get_def startswith_def)
qed

text \<open>
  C6. In each of the three modes, when the engine reports success the result is valid and
  its \<^verbatim>\<open>sql\<close> is the quoted SQL returned by \<open>add_quotes\<close>. Its \<^verbatim>\<open>correlation_id\<close> is the
  empty string in dry-plan mode, and the entry \<^verbatim>\<open>correlation_id\<close> of the engine's
  \<^verbatim>\<open>addition\<close> mapping (the empty string when there is none) in the two other modes.
\<close>

theorem engine_success_gives_valid_quoted_sql:
  assumes "add_quotes ext c = Inr (q, [])"
    and "if use_dry_plan a
         then (\<exists>msg. dry_plan eng q (data_source a) (timeout a) (allow_dry_plan_fallback a)
                        = Inr (True, msg))
              \<and> cid = PStr ''''
         else (\<exists>rows addition.
                 execute_sql eng q (project_id a) (timeout a) 1 (\<not> allow_data_preview a)
                   = Inr (True, rows, addition)
                 \<and> cid = dict_get addition ''correlation_id'' (PStr ''''))"
  shows "snd (classify_generation_result ext eng c a) =
           Inr ([(''sql'', PStr q), (''correlation_id'', cid)], [])"
proof (cases "use_dry_plan a")
  case True
  with assms show ?thesis by (auto simp: classify_dry_plan)
next
  case plan: False
  with assms(2) obtain rows addition where
    ex: "execute_sql eng q (project_id a) (timeout a) 1 (\<not> allow_data_preview a)
           = Inr (True, rows, addition)"
    and m: "cid = dict_get addition ''correlation_id'' (PStr '''')"
    by auto
  show ?thesis
  proof (cases "allow_data_preview a")
    case True
    with assms(1) plan ex m show ?thesis by (simp add: classify_live_preview)
  next
    case False
    with assms(1) plan ex m show ?thesis by (simp add: classify_dry_run)
  qed
qed

theorem engine_success_gives_valid_quoted_sql_witness:
  \<open>snd (classify_generation_result stub_externals
          (stub_engine (Inr (True, [])) (Inl (Fault ''unused'')))
          (PStr ''SELECT * FROM orders'') (stub_args True True)) =
      Inr ([(''sql'', PStr ''SELECT * FROM "orders"''), (''correlation_id'', PStr '''')], [])
   \<and> snd (classify_generation_result stub_externals
          (stub_engine (Inl (Fault ''unused'')) (Inr (True, PNone, [(''correlation_id'', PStr ''abc'')])))
          (PStr ''SELECT * FROM orders'') (stub_args False False)) =
      Inr ([(''sql'', PStr ''SELECT * FROM "orders"''), (''correlation_id'', PStr ''abc'')], [])
   \<and> snd (classify_generation_result stub_externals
          (stub_engine (Inl (Fault ''unused'')) (Inr (True, PNone, [])))
          (PStr ''SELECT * FROM orders'') (stub_args False True)) =
      Inr ([(''sql'', PStr ''SELECT * FROM "orders"''), (''correlation_id'', PStr '''')], [])\<close>
proof -
  let ?plan = "stub_engine (Inr (True, [])) (Inl (Fault ''unused''))"
  let ?run = "stub_engine (Inl (Fault ''unused'')) (Inr (True, PNone, [(''correlation_id'', PStr ''abc'')]))"
  let ?live = "stub_engine (Inl (Fault ''unused'')) (Inr (True, PNone, []))"
  have q: \<open>add_quotes stub_externals (PStr ''SELECT * FROM orders'')
             = Inr (''SELECT * FROM "orders"'', [])\<close>
    by (simp add: stub_externals_def)
  have h1: \<open>if use_dry_plan (stub_args True True)
         then (\<exists>msg. dry_plan ?plan ''SELECT * FROM "orders"'' (data_source (stub_args True True))
                 (timeout (stub_args True True)) (allow_dry_plan_fallback (stub_args True True))
                        = Inr (True, msg))
              \<and> PStr '''' = PStr ''''
         else (\<exists>rows addition.
                 execute_sql ?plan ''SELECT * FROM "orders"'' (project_id (stub_args True True))
                   (timeout (stub_args True True)) 1 (\<not> allow_data_preview (stub_args True True))
                   = Inr (True, rows, addition)
                 \<and> PStr '''' = dict_get addition ''correlation_id'' (PStr ''''))\<close>
    by (simp add: stub_engine_def stub_args_def)
  have h2: \<open>if use_dry_plan (stub_args False False)
         then (\<exists>msg. dry_plan ?run ''SELECT * FROM "orders"'' (data_source (stub_args False False))
                 (timeout (stub_args False False)) (allow_dry_plan_fallback (stub_args False False))
                        = Inr (True, msg))
              \<and> PStr ''abc'' = PStr ''''
         else (\<exists>rows addition.
                 execute_sql ?run ''SELECT * FROM "orders"'' (project_id (stub_args False False))
                   (timeout (stub_args False False)) 1 (\<not> allow_data_preview (stub_args False False))
                   = Inr (True, rows, addition)
                 \<and> PStr ''abc'' = dict_get addition ''correlation_id'' (PStr ''''))\<close>
    by (simp add: stub_engine_def stub_args_def dict_get_def)
  have h3: \<open>if use_dry_plan (stub_args False True)
         then (\<exists>msg. dry_plan ?live ''SELECT * FROM "orders"'' (data_source (stub_args False True))
                 (timeout (stub_args False True)) (allow_dry_plan_fallback (stub_args False True))
                        = Inr (True, msg))
              \<and> PStr '''' = PStr ''''
         else (\<exists>rows addition.
                 execute_sql ?live ''SELECT * FROM "orders"'' (project_id (stub_args False True))
                   (timeout (stub_args False True)) 1 (\<not> allow_data_preview (stub_args False True))
                   = Inr (True, rows, addition)
                 \<and> PStr '''' = dict_get addition ''correlation_id'' (PStr ''''))\<close>
    by (simp add: stub_engine_def stub_args_def dict_get_def)
  show ?thesis
    using engine_success_gives_valid_quoted_sql [OF q h1]
      engine_success_gives_valid_quoted_sql [OF q h2]
      engine_success_gives_valid_quoted_sql [OF q h3]
    by simp
qed



text \<open>
  C8. When the cleaned text of the first reply starts with an opening brace and decodes to
  an object with a key \<^verbatim>\<open>sql\<close>, the value under that key is the candidate; when it does
  not start with an opening brace, the cleaned text itself is. \<^verbatim>\<open>run\<close> returns the
  classification of that candidate (two empty mappings when the classification raises an
  exception that the handler catches). The witness unwraps \<^verbatim>\<open>{"sql": "SELECT 1"}\<close> to
  \<^verbatim>\<open>SELECT 1\<close>.
\<close>

theorem envelope_is_unwrapped:
  assumes "clean_generation_result ext r = Inr cleaned"
    and "if startswith cleaned ''{''
         then (\<exists>d. orjson_loads ext cleaned = Inr (PDict d) \<and> map_of d ''sql'' = Some c)
         else c = PStr cleaned"
  shows "cleaned_generation_result ext (r # rs) = Inr c
    \<and> run ext eng (r # rs) a =
        (case classify_generation_result ext eng c a of
           (calls, Inl e) \<Rightarrow>
             (calls,
              if is_Exception e
              then Inr \<lparr>valid_generation_result = [], invalid_generation_result = []\<rparr>
              else Inl e)
         | (calls, Inr (valid, invalid)) \<Rightarrow>
             (calls,
              Inr \<lparr>valid_generation_result = valid, invalid_generation_result = invalid\<rparr>))"
proof -
  have n: "cleaned_generation_result ext (r # rs) = Inr c"
    using assms by (auto simp: cleaned_generation_result_def split: if_splits)
  then show ?thesis
    by (simp add: run_def run_try_def split: prod.splits sum.splits)
qed

theorem envelope_is_unwrapped_witness:
  \<open>cleaned_generation_result stub_externals [PStr ''{"sql": "SELECT 1"}''] = Inr (PStr ''SELECT 1'')
   \<and> run stub_externals (stub_engine (Inr (True, [])) (Inr (True, PNone, [])))
        [PStr ''{"sql": "SELECT 1"}''] (stub_args True False) =
      ([DryPlan ''SELECT 1'' [] 30 True],
       Inr \<lparr>valid_generation_result = [(''sql'', PStr ''SELECT 1''), (''correlation_id'', PStr [])],
            invalid_generation_result = []\<rparr>)
   \<and> cleaned_generation_result stub_externals [PStr ''SELECT 1''] = Inr (PStr ''SELECT 1'')\<close>
proof -
  let ?eng = "stub_engine (Inr (True, [])) (Inr (True, PNone, []))"
  have cl: "clean_generation_result stub_externals (PStr s) = Inr s" for s
    by (simp add: stub_externals_def)
  have h1: \<open>if startswith ''{"sql": "SELECT 1"}'' ''{''
         then (\<exists>d. orjson_loads stub_externals ''{"sql": "SELECT 1"}'' = Inr (PDict d)
                 \<and> map_of d ''sql'' = Some (PStr ''SELECT 1''))
         else PStr ''SELECT 1'' = PStr ''{"sql": "SELECT 1"}''\<close>
    by (simp add: stub_externals_def startswith_def)
  have h2: \<open>if startswith ''SELECT 1'' ''{''
         then (\<exists>d. orjson_loads stub_externals ''SELECT 1'' = Inr (PDict d)
                 \<and> map_of d ''sql'' = Some (PStr ''SELECT 1''))
         else PStr ''SELECT 1'' = PStr ''SELECT 1''\<close>
    by (simp add: startswith_def)
  have c: "classify_generation_result stub_externals ?eng (PStr ''SELECT 1'') (stub_args True False)
      = ([DryPlan ''SELECT 1'' [] 30 True],
         Inr ([(''sql'', PStr ''SELECT 1''), (''correlation_id'', PStr [])], []))"
    by (simp add: classify_generation_result_def stub_externals_def stub_engine_def stub_args_def)
  show ?thesis
    using envelope_is_unwrapped [OF cl h1, of "[]" ?eng "stub_args True False"]
      envelope_is_unwrapped [OF cl h2, of "[]" ?eng "stub_args True False"]
    by (simp add: c)
qed

text \<open>
  C9. The outcome of \<^verbatim>\<open>run\<close> depends only on element 0 of the replies: two non-empty
  reply sequences with the same first element give, for the same collaborators, engine
  and arguments, the same engine calls and the same pair of result mappings.
\<close>

theorem run_depends_on_first_reply_only:
  assumes "replies1 \<noteq> []" and "replies2 \<noteq> []" and "hd replies1 = hd replies2"
  shows "run ext eng replies1 a = run ext eng replies2 a"
proof -
  obtain r rs1 where r1: "replies1 = r # rs1"
    using assms(1) by (cases replies1) auto
  obtain r' rs2 where r2: "replies2 = r' # rs2"
    using assms(2) by (cases replies2) auto
  from assms(3) r1 r2 have "r' = r" by simp
  with r1 r2 show ?thesis
    by (simp add: run_def run_try_def cleaned_generation_result_def)
qed

theorem run_depends_on_first_reply_only_witness:
  "run stub_externals (stub_engine (Inr (True, [])) (Inr (True, PNone, [])))
     [PStr ''SELECT 1'', PStr ''SELECT (1''] (stub_args False False)
   = run stub_externals (stub_engine (Inr (True, [])) (Inr (True, PNone, [])))
     [PStr ''SELECT 1'', PStr ''SELECT * FROM orders'', PNone] (stub_args False False)"
  using run_depends_on_first_reply_only
    [of "[PStr ''SELECT 1'', PStr ''SELECT (1'']"
        "[PStr ''SELECT 1'', PStr ''SELECT * FROM orders'', PNone]"]
  by simp

text \<open>
  C10. For an event id that the cache does not hold (never stored, or expired),
  \<^verbatim>\<open>__getitem__\<close> returns an event with that id, status \<^verbatim>\<open>failed\<close> and an error of code
  \<^verbatim>\<open>OTHERS\<close> whose message quotes the id, and leaves the service, and so its cache, as it
  was.
\<close>

theorem getitem_missing_event:
  assumes "cache_get (cache self) now eid = None"
  shows "getitem self now eid =
     (\<lparr>event_id = eid, status = Failed,
       error = Some \<lparr>code = OTHERS,
                     message = ''Instructions Event with ID '' @ [CHR 0x27] @ eid @ [CHR 0x27]
                               @ '' not found.''\<rparr>,
       trace_id = None, request_from = UI\<rparr>,
      self)"
  using assms by (simp add: getitem_def not_found_message_def)

theorem getitem_missing_event_witness:
  "getitem \<lparr>cache = [''e1'' \<mapsto> (10, \<lparr>event_id = ''e1'', status = Finished, error = None,
                                       trace_id = None, request_from = API\<rparr>)]\<rparr> 12 ''e1''
   = (\<lparr>event_id = ''e1'', status = Failed,
       error = Some \<lparr>code = OTHERS,
                     message = ''Instructions Event with ID '' @ [CHR 0x27] @ ''e1'' @ [CHR 0x27]
                               @ '' not found.''\<rparr>,
       trace_id = None, request_from = UI\<rparr>,
      \<lparr>cache = [''e1'' \<mapsto> (10, \<lparr>event_id = ''e1'', status = Finished, error = None,
                                       trace_id = None, request_from = API\<rparr>)]\<rparr>)
   \<and> fst (getitem \<lparr>cache = [''e1'' \<mapsto> (10, \<lparr>event_id = ''e1'', status = Finished, error = None,
                                       trace_id = None, request_from = API\<rparr>)]\<rparr> 12 ''e2'')
     = \<lparr>event_id = ''e2'', status = Failed,
       error = Some \<lparr>code = OTHERS,
                     message = ''Instructions Event with ID '' @ [CHR 0x27] @ ''e2'' @ [CHR 0x27]
                               @ '' not found.''\<rparr>,
       trace_id = None, request_from = UI\<rparr>"
proof -
  let ?svc = "\<lparr>cache = [''e1'' \<mapsto> (10, \<lparr>event_id = ''e1'', status = Finished, error = None,
                                       trace_id = None, request_from = API\<rparr>)]\<rparr>"
  have expired: "cache_get (cache ?svc) 12 ''e1'' = None"
    by (simp add: cache_get_def)
  have unknown: "cache_get (cache ?svc) 12 ''e2'' = None"
    by (simp add: cache_get_def)
  show ?thesis
    using getitem_missing_event [OF expired] getitem_missing_event [OF unknown]
    by simp
qed

end
